theory Spec2Isabelle
  imports Main
begin

section \<open>JavaScript values, errors and HTTP messages\<close>

text \<open>
  The values the two entry points put into response bodies and read from the driver:
  \<open>undefined\<close>, \<open>null\<close>, booleans, strings and object literals (key order kept).
\<close>

datatype jsval = Undefined | Null | Bool bool | Str string | Obj "(string \<times> jsval) list"

text \<open>JavaScript truthiness, as used by \<open>a || b\<close>.\<close>

fun truthy :: "jsval \<Rightarrow> bool" where
  "truthy Undefined = False"
| "truthy Null = False"
| "truthy (Bool b) = b"
| "truthy (Str s) = (s \<noteq> [])"
| "truthy (Obj kvs) = True"

definition js_or :: "jsval \<Rightarrow> jsval \<Rightarrow> jsval" where
  "js_or a b = (if truthy a then a else b)"

text \<open>The string a value becomes inside a template literal \<open>`...${v}`\<close>.\<close>

fun template :: "jsval \<Rightarrow> string" where
  "template Undefined = ''undefined''"
| "template Null = ''null''"
| "template (Bool b) = (if b then ''true'' else ''false'')"
| "template (Str s) = s"
| "template (Obj kvs) = ''[object Object]''"

text \<open>
  \<open>res.json(obj)\<close> sends \<open>JSON.stringify(obj)\<close>: a property whose value is
  \<open>undefined\<close> is left out of the body, at every depth.
\<close>

fun to_json :: "jsval \<Rightarrow> jsval" where
  "to_json (Obj kvs) =
     Obj (map (\<lambda>(k, v). (k, to_json v)) (filter (\<lambda>(k, v). v \<noteq> Undefined) kvs))"
| "to_json v = v"

text \<open>Property lookup \<open>o.k\<close>: \<open>undefined\<close> when the key is absent.\<close>

fun get_prop :: "jsval \<Rightarrow> string \<Rightarrow> jsval" where
  "get_prop (Obj kvs) k = (case map_of kvs k of Some v \<Rightarrow> v | None \<Rightarrow> Undefined)"
| "get_prop v k = Undefined"

record js_error =
  message :: string
  stack :: string

record request =
  http_method :: string
  originalUrl :: string

record response =
  status :: nat
  body :: jsval

text \<open>\<open>res.json(obj)\<close> answers with status 200; \<open>res.status(n).json(obj)\<close> with \<open>n\<close>.\<close>

definition res_status_json :: "nat \<Rightarrow> jsval \<Rightarrow> response" where
  "res_status_json n obj = \<lparr>status = n, body = to_json obj\<rparr>"

definition res_json :: "jsval \<Rightarrow> response" where
  "res_json obj = res_status_json 200 obj"

datatype console_arg = Text string | Thrown js_error

datatype console_entry = Log string | Error "console_arg list"

section \<open>The driver as the code sees it\<close>

text \<open>
  \<open>mongoose.connection\<close>: the three properties the code reads. The driver writes them;
  the code only reads them.
\<close>

record driver_conn =
  readyState :: nat
  host :: jsval
  name :: jsval

text \<open>The \<open>mongoose\<close> object; \<open>mongoose.connect\<close> resolves to it.\<close>

record mongoose_inst =
  connection :: driver_conn

record connect_options =
  serverSelectionTimeoutMS :: nat
  socketTimeoutMS :: nat
  maxPoolSize :: nat
  minPoolSize :: nat
  maxIdleTimeMS :: nat
  connectTimeoutMS :: nat
  bufferCommands :: "bool option"

record environment =
  MONGODB_ATLAS_URI :: "string option"
  NODE_ENV :: "string option"
  PORT :: "string option"

text \<open>
  What both entry points share at module scope: the driver object, the calls made to
  \<open>mongoose.connect\<close> so far (one entry per establishment attempt, with its arguments),
  and the console.
\<close>

record process =
  mongoose :: mongoose_inst
  connect_calls :: "(string option \<times> connect_options) list"
  console :: "console_entry list"

section \<open>api/index.js: the serverless entry point\<close>

record vercel_state = process +
  cachedConnection :: "mongoose_inst option"

definition vercel_options :: connect_options where
  "vercel_options =
     \<lparr>serverSelectionTimeoutMS = 5000, socketTimeoutMS = 45000, maxPoolSize = 5,
      minPoolSize = 0, maxIdleTimeMS = 10000, connectTimeoutMS = 10000,
      bufferCommands = Some False\<rparr>"

text \<open>
  \<open>connectDB\<close> is an async function with one \<open>await\<close>. Its synchronous first part
  runs up to that \<open>await\<close>: it either returns the cached value (\<open>Some\<close>) or has called
  \<open>mongoose.connect\<close> and is suspended (\<open>None\<close>).
\<close>

definition connectDB_enter ::
  "environment \<Rightarrow> vercel_state \<Rightarrow> mongoose_inst option \<times> vercel_state" where
  "connectDB_enter env s =
     (case cachedConnection s of
        Some c \<Rightarrow> (Some c, s)
      | None \<Rightarrow>
          (None, s\<lparr>connect_calls := connect_calls s @ [(MONGODB_ATLAS_URI env, vercel_options)]\<rparr>))"

text \<open>
  The second part runs when the awaited promise settles: with \<open>Inr conn\<close> the value is
  cached, logged and returned; with \<open>Inl error\<close> the \<open>catch\<close> block logs and rethrows.
\<close>

definition connectDB_resume ::
  "js_error + mongoose_inst \<Rightarrow> vercel_state \<Rightarrow> (js_error + mongoose_inst) \<times> vercel_state" where
  "connectDB_resume r s =
     (case r of
        Inr conn \<Rightarrow>
          (Inr conn,
           s\<lparr>cachedConnection := Some conn,
             console := console s @
               [Log (''MongoDB Atlas Connected: '' @ template (host (connection conn)))]\<rparr>)
      | Inl error \<Rightarrow>
          (Inl error,
           s\<lparr>console := console s @ [Error [Text ''MongoDB connection error:'', Thrown error]]\<rparr>))"

text \<open>
  The driver's side of a settled attempt: the promise of \<open>mongoose.connect\<close> resolves to the
  \<open>mongoose\<close> object itself, so on success the module's \<open>mongoose\<close> is the resolved value.
\<close>

definition driver_settles ::
  "js_error + mongoose_inst \<Rightarrow> 'a process_scheme \<Rightarrow> 'a process_scheme" where
  "driver_settles r s = (case r of Inr conn \<Rightarrow> s\<lparr>mongoose := conn\<rparr> | Inl error \<Rightarrow> s)"

text \<open>
  One call run alone, from entry to return; \<open>r\<close> is how the driver settles the attempt if
  one is made.
\<close>

definition connectDB ::
  "environment \<Rightarrow> js_error + mongoose_inst \<Rightarrow> vercel_state \<Rightarrow>
     (js_error + mongoose_inst) \<times> vercel_state" where
  "connectDB env r s =
     (case connectDB_enter env s of
        (Some c, s') \<Rightarrow> (Inr c, s')
      | (None, s') \<Rightarrow> connectDB_resume r (driver_settles r s'))"

subsection \<open>Interleaved calls on one event loop\<close>

text \<open>
  Calls are interleaved only at the \<open>await\<close>. A process holds the module state, the callers
  suspended at the \<open>await\<close>, and what each finished call returned or threw.
\<close>

record vercel_proc =
  heap :: vercel_state
  pending :: "nat list"
  returned :: "(nat \<times> (js_error + mongoose_inst)) list"

datatype event =
  Call nat
| Settle nat "js_error + mongoose_inst"
| Disconnected

text \<open>
  The driver reports a lost connection: \<open>readyState\<close> becomes 0 and the \<open>disconnected\<close>
  listeners run. api/index.js registers none.
\<close>

definition vercel_on_disconnected :: "vercel_state \<Rightarrow> vercel_state" where
  "vercel_on_disconnected s =
     s\<lparr>mongoose := (mongoose s)\<lparr>connection := (connection (mongoose s))\<lparr>readyState := 0\<rparr>\<rparr>\<rparr>"

fun step :: "environment \<Rightarrow> event \<Rightarrow> vercel_proc \<Rightarrow> vercel_proc" where
  "step env (Call i) p =
     (case connectDB_enter env (heap p) of
        (Some c, s') \<Rightarrow> p\<lparr>heap := s', returned := returned p @ [(i, Inr c)]\<rparr>
      | (None, s') \<Rightarrow> p\<lparr>heap := s', pending := pending p @ [i]\<rparr>)"
| "step env (Settle i r) p =
     (if i \<in> set (pending p) then
        (case connectDB_resume r (driver_settles r (heap p)) of
           (out, s') \<Rightarrow>
             p\<lparr>heap := s', pending := removeAll i (pending p),
               returned := returned p @ [(i, out)]\<rparr>)
      else p)"
| "step env Disconnected p = p\<lparr>heap := vercel_on_disconnected (heap p)\<rparr>"

fun run :: "environment \<Rightarrow> event list \<Rightarrow> vercel_proc \<Rightarrow> vercel_proc" where
  "run env [] p = p"
| "run env (e # es) p = run env es (step env e p)"

text \<open>
  The module right after loading: nothing cached, no call made, and the driver idle, that is
  disconnected (\<open>readyState\<close> 0) with \<open>host\<close> and \<open>name\<close> not yet set.
\<close>

definition idle_mongoose :: mongoose_inst where
  "idle_mongoose = \<lparr>connection = \<lparr>readyState = 0, host = Undefined, name = Undefined\<rparr>\<rparr>"

definition vercel_init :: vercel_state where
  "vercel_init =
     \<lparr>mongoose = idle_mongoose, connect_calls = [], console = [], cachedConnection = None\<rparr>"

definition proc_init :: vercel_proc where
  "proc_init = \<lparr>heap = vercel_init, pending = [], returned = []\<rparr>"

subsection \<open>The request pipeline of api/index.js\<close>

text \<open>
  What a middleware or a router does with a request: call \<open>next()\<close>, end the response, or
  fail (\<open>next(err)\<close> or a throw), which takes the request to the error handler.
\<close>

datatype outcome = Next | Sent response | Raised js_error

text \<open>
  The parts of the pipeline that are not in the two entry points: the third-party middleware
  mounted first (helmet, compression, cors, the rate limiter, the body parsers, and in index.js
  the static file server), the four routers under \<open>/api/blogs\<close>, \<open>/api/projects\<close>,
  \<open>/api/services\<close> and \<open>/api/teams\<close>, and Express's matching of a request against the
  path of \<open>app.get\<close>.
\<close>

record externals =
  upstream :: "request \<Rightarrow> outcome"
  routers :: "request \<Rightarrow> outcome"
  get_matches :: "string \<Rightarrow> request \<Rightarrow> bool"

fun dbStatusText :: "nat \<Rightarrow> jsval" where
  "dbStatusText n =
     (if n = 0 then Str ''disconnected''
      else if n = 1 then Str ''connected''
      else if n = 2 then Str ''connecting''
      else if n = 3 then Str ''disconnecting''
      else Undefined)"

text \<open>The middleware that connects on every request: \<open>None\<close> is \<open>next()\<close>.\<close>

definition vercel_db_middleware ::
  "environment \<Rightarrow> js_error + mongoose_inst \<Rightarrow> vercel_state \<Rightarrow>
     response option \<times> vercel_state" where
  "vercel_db_middleware env r s =
     (case connectDB env r s of
        (Inr c, s') \<Rightarrow> (None, s')
      | (Inl error, s') \<Rightarrow>
          (Some (res_status_json 500
             (Obj [(''message'', Str ''Database connection failed''),
                   (''error'', Str (message error))])),
           s'))"

text \<open>
  \<open>GET /api/health\<close>. The handler's \<open>try\<close> encloses only property reads and
  \<open>res.json\<close>; its \<open>catch\<close> branch has no throwing statement to catch here.
\<close>

definition vercel_health :: "string \<Rightarrow> vercel_state \<Rightarrow> response \<times> vercel_state" where
  "vercel_health now s =
     (let dbStatus = readyState (connection (mongoose s)) in
      (res_json
         (Obj [(''status'', Str ''OK''),
               (''message'', Str ''Server is running on Vercel''),
               (''database'',
                  Obj [(''status'', dbStatusText dbStatus),
                       (''host'', js_or (host (connection (mongoose s))) (Str ''Not connected'')),
                       (''name'', js_or (name (connection (mongoose s))) (Str ''Not connected''))]),
               (''timestamp'', Str now),
               (''serverless'', Bool True)]),
       s))"

definition vercel_error_handler ::
  "environment \<Rightarrow> js_error \<Rightarrow> vercel_state \<Rightarrow> response \<times> vercel_state" where
  "vercel_error_handler env err s =
     (res_status_json 500
        (Obj [(''message'', Str ''Something went wrong!''),
              (''error'',
                 if NODE_ENV env = Some ''production'' then Str ''Internal Server Error''
                 else Str (message err))]),
      s\<lparr>console := console s @ [Error [Text ''Error:'', Text (stack err)]]\<rparr>)"

definition vercel_not_found :: "request \<Rightarrow> response" where
  "vercel_not_found req =
     res_status_json 404
       (Obj [(''message'', Str ''Route not found''), (''path'', Str (originalUrl req))])"

text \<open>
  One request through the pipeline, in the order of the \<open>app.use\<close> calls; \<open>now\<close> is
  \<open>new Date().toISOString()\<close> and \<open>r\<close> is how the driver settles an attempt if the
  request causes one.
\<close>

definition vercel_app ::
  "externals \<Rightarrow> environment \<Rightarrow> string \<Rightarrow> js_error + mongoose_inst \<Rightarrow> request \<Rightarrow>
     vercel_state \<Rightarrow> response \<times> vercel_state" where
  "vercel_app ext env now r req s =
     (case upstream ext req of
        Sent res \<Rightarrow> (res, s)
      | Raised err \<Rightarrow> vercel_error_handler env err s
      | Next \<Rightarrow>
          (case vercel_db_middleware env r s of
             (Some res, s') \<Rightarrow> (res, s')
           | (None, s') \<Rightarrow>
               (case routers ext req of
                  Sent res \<Rightarrow> (res, s')
                | Raised err \<Rightarrow> vercel_error_handler env err s'
                | Next \<Rightarrow>
                    if get_matches ext ''/api/health'' req then vercel_health now s'
                    else (vercel_not_found req, s'))))"

section \<open>index.js: the long-running entry point\<close>

text \<open>
  Besides the shared module state: whether \<open>connectDB\<close> is still suspended at its
  \<open>await\<close>, whether \<open>app.listen\<close> has been called, and the code given to
  \<open>process.exit\<close>, after which the process does nothing more.
\<close>

record server_state = process +
  connect_pending :: bool
  listening :: bool
  exit_code :: "nat option"

definition server_options :: connect_options where
  "server_options =
     \<lparr>serverSelectionTimeoutMS = 5000, socketTimeoutMS = 45000, maxPoolSize = 10,
      minPoolSize = 0, maxIdleTimeMS = 30000, connectTimeoutMS = 10000,
      bufferCommands = None\<rparr>"

definition server_connectDB_enter :: "environment \<Rightarrow> server_state \<Rightarrow> server_state" where
  "server_connectDB_enter env s =
     s\<lparr>connect_calls := connect_calls s @ [(MONGODB_ATLAS_URI env, server_options)],
       connect_pending := True\<rparr>"

definition server_connectDB_resume ::
  "js_error + mongoose_inst \<Rightarrow> server_state \<Rightarrow> server_state" where
  "server_connectDB_resume r s =
     (case r of
        Inr conn \<Rightarrow>
          s\<lparr>console := console s @
               [Log (''MongoDB Atlas Connected: '' @ template (host (connection conn))),
                Log (''Database Name: '' @ template (name (connection conn)))],
            connect_pending := False\<rparr>
      | Inl error \<Rightarrow>
          s\<lparr>console := console s @
               [Error [Text ''MongoDB Atlas connection error:'', Text (message error)]],
            connect_pending := False,
            exit_code := Some 1\<rparr>)"

definition app_listen :: "server_state \<Rightarrow> server_state" where
  "app_listen s = s\<lparr>listening := True\<rparr>"

definition server_init :: server_state where
  "server_init =
     \<lparr>mongoose = idle_mongoose, connect_calls = [], console = [],
      connect_pending = False, listening = False, exit_code = None\<rparr>"

text \<open>
  Loading the module runs its top-level statements in order, without a pause: \<open>connectDB()\<close>
  (line 70, not awaited) runs up to its \<open>await\<close>, and \<open>app.listen\<close> (line 140) follows.
\<close>

definition server_load :: "environment \<Rightarrow> server_state" where
  "server_load env = app_listen (server_connectDB_enter env server_init)"

definition server_health :: "string \<Rightarrow> server_state \<Rightarrow> response \<times> server_state" where
  "server_health now s =
     (let dbStatus = readyState (connection (mongoose s)) in
      (res_json
         (Obj [(''status'', Str ''OK''),
               (''message'', Str ''Server is running''),
               (''database'',
                  Obj [(''status'', dbStatusText dbStatus),
                       (''host'', host (connection (mongoose s))),
                       (''name'', name (connection (mongoose s)))]),
               (''timestamp'', Str now)]),
       s))"

definition server_error_handler ::
  "environment \<Rightarrow> js_error \<Rightarrow> server_state \<Rightarrow> response \<times> server_state" where
  "server_error_handler env err s =
     (res_status_json 500
        (Obj [(''message'', Str ''Something went wrong!''),
              (''error'',
                 if NODE_ENV env = Some ''production'' then Obj [] else Str (message err))]),
      s\<lparr>console := console s @ [Error [Text (stack err)]]\<rparr>)"

definition server_not_found :: "request \<Rightarrow> response" where
  "server_not_found req = res_status_json 404 (Obj [(''message'', Str ''Route not found'')])"

definition server_app ::
  "externals \<Rightarrow> environment \<Rightarrow> string \<Rightarrow> request \<Rightarrow> server_state \<Rightarrow>
     response \<times> server_state" where
  "server_app ext env now req s =
     (case upstream ext req of
        Sent res \<Rightarrow> (res, s)
      | Raised err \<Rightarrow> server_error_handler env err s
      | Next \<Rightarrow>
          (case routers ext req of
             Sent res \<Rightarrow> (res, s)
           | Raised err \<Rightarrow> server_error_handler env err s
           | Next \<Rightarrow>
               if get_matches ext ''/api/health'' req then server_health now s
               else (server_not_found req, s)))"

text \<open>
  The \<open>SIGINT\<close> handler of index.js (close the connection, then exit) is left out: no
  property below is about shutdown.
\<close>

text \<open>
  What happens to the loaded process: the awaited connect settles, the listen callback runs,
  the driver emits one of the three events index.js listens to, or a request arrives (with
  the clock reading at that moment).
\<close>

datatype server_event =
  ConnectSettled "js_error + mongoose_inst"
| ListenCallback
| DriverConnected
| DriverError js_error
| DriverDisconnected
| Request string request

definition port_text :: "environment \<Rightarrow> string" where
  "port_text env = (case PORT env of Some p \<Rightarrow> (if p \<noteq> [] then p else ''5000'') | None \<Rightarrow> ''5000'')"

definition set_readyState :: "nat \<Rightarrow> 'a process_scheme \<Rightarrow> 'a process_scheme" where
  "set_readyState n s =
     s\<lparr>mongoose := (mongoose s)\<lparr>connection := (connection (mongoose s))\<lparr>readyState := n\<rparr>\<rparr>\<rparr>"

fun server_on :: "externals \<Rightarrow> environment \<Rightarrow> server_event \<Rightarrow> server_state \<Rightarrow>
    response option \<times> server_state" where
  "server_on ext env (ConnectSettled r) s =
     (if connect_pending s then (None, server_connectDB_resume r (driver_settles r s))
      else (None, s))"
| "server_on ext env ListenCallback s =
     (None,
      s\<lparr>console := console s @
          [Log (''Server is running on port '' @ port_text env),
           Log (''Health check: http://localhost:'' @ port_text env @ ''/api/health'')]\<rparr>)"
| "server_on ext env DriverConnected s =
     (None,
      (set_readyState 1 s)\<lparr>console := console s @ [Log ''Mongoose connected to MongoDB Atlas'']\<rparr>)"
| "server_on ext env (DriverError err) s =
     (None, s\<lparr>console := console s @ [Error [Text ''Mongoose connection error:'', Thrown err]]\<rparr>)"
| "server_on ext env DriverDisconnected s =
     (None,
      (set_readyState 0 s)\<lparr>console := console s @
         [Log ''Mongoose disconnected from MongoDB Atlas'']\<rparr>)"
| "server_on ext env (Request now req) s =
     (if listening s then (case server_app ext env now req s of (res, s') \<Rightarrow> (Some res, s'))
      else (None, s))"

text \<open>A process that has called \<open>process.exit\<close> runs nothing further.\<close>

definition server_step :: "externals \<Rightarrow> environment \<Rightarrow> server_event \<Rightarrow> server_state \<Rightarrow>
    response option \<times> server_state" where
  "server_step ext env ev s =
     (case exit_code s of Some n \<Rightarrow> (None, s) | None \<Rightarrow> server_on ext env ev s)"

fun server_run :: "externals \<Rightarrow> environment \<Rightarrow> server_event list \<Rightarrow> server_state \<Rightarrow>
    response option list \<times> server_state" where
  "server_run ext env [] s = ([], s)"
| "server_run ext env (ev # evs) s =
     (case server_step ext env ev s of
        (res, s') \<Rightarrow> (case server_run ext env evs s' of (ress, s'') \<Rightarrow> (res # ress, s'')))"

section \<open>Sample inputs\<close>

definition atlas :: mongoose_inst where
  "atlas =
     \<lparr>connection =
        \<lparr>readyState = 1, host = Str ''cluster0-shard-00-00.mongodb.net'', name = Str ''portfolio''\<rparr>\<rparr>"

definition refused :: js_error where
  "refused =
     \<lparr>message = ''connect ECONNREFUSED 10.0.0.5:27017'',
      stack = ''MongooseServerSelectionError: connect ECONNREFUSED 10.0.0.5:27017''\<rparr>"

definition env_dev :: environment where
  "env_dev =
     \<lparr>MONGODB_ATLAS_URI = Some ''mongodb+srv://cluster0.mongodb.net/portfolio'',
      NODE_ENV = None, PORT = None\<rparr>"

definition env_prod :: environment where
  "env_prod =
     \<lparr>MONGODB_ATLAS_URI = Some ''mongodb+srv://cluster0.mongodb.net/portfolio'',
      NODE_ENV = Some ''production'', PORT = Some ''8080''\<rparr>"

text \<open>All third-party middleware passes, no router answers, paths match exactly on GET.\<close>

definition plain_ext :: externals where
  "plain_ext =
     \<lparr>upstream = (\<lambda>req. Next), routers = (\<lambda>req. Next),
      get_matches = (\<lambda>p req. http_method req = ''GET'' \<and> originalUrl req = p)\<rparr>"

definition get_health :: request where
  "get_health = \<lparr>http_method = ''GET'', originalUrl = ''/api/health''\<rparr>"

definition get_nope :: request where
  "get_nope = \<lparr>http_method = ''GET'', originalUrl = ''/api/nope?x=1''\<rparr>"

definition warm :: vercel_proc where
  "warm = run env_dev [Call 0, Settle 0 (Inr atlas)] proc_init"

section \<open>No event of the long-running process connects again\<close>

lemma server_app_keeps:
  "connect_calls (snd (server_app ext env now req s)) = connect_calls s \<and>
   mongoose (snd (server_app ext env now req s)) = mongoose s \<and>
   exit_code (snd (server_app ext env now req s)) = exit_code s"
  by (simp add: server_app_def server_health_def server_error_handler_def Let_def
      split: outcome.splits)

lemma server_on_connect_calls:
  "connect_calls (snd (server_on ext env ev s)) = connect_calls s"
proof (cases ev)
  case (ConnectSettled r)
  then show ?thesis
    by (cases r) (simp_all add: server_connectDB_resume_def driver_settles_def)
next
  case (Request now req)
  then show ?thesis
    using server_app_keeps [of ext env now req s] by (simp add: split_beta)
qed (simp_all add: set_readyState_def)

lemma server_step_connect_calls:
  "connect_calls (snd (server_step ext env ev s)) = connect_calls s"
  by (simp add: server_step_def server_on_connect_calls split: option.splits)

lemma server_run_connect_calls:
  "connect_calls (snd (server_run ext env evs s)) = connect_calls s"
proof (induction evs arbitrary: s)
  case Nil
  then show ?case by simp
next
  case (Cons ev evs)
  have "connect_calls (snd (server_run ext env evs (snd (server_step ext env ev s)))) =
      connect_calls (snd (server_step ext env ev s))"
    by (rule Cons.IH)
  then show ?case
    by (simp add: split_beta server_step_connect_calls)
qed

section \<open>Properties of the serverless connection cache\<close>

lemma step_Call_cached:
  "cachedConnection (heap p) = Some c \<Longrightarrow>
     step env (Call i) p = p\<lparr>returned := returned p @ [(i, Inr c)]\<rparr>"
  by (simp add: connectDB_enter_def)

lemma run_Calls_cached:
  "cachedConnection (heap p) = Some c \<Longrightarrow>
     run env (map Call cs) p = p\<lparr>returned := returned p @ map (\<lambda>i. (i, Inr c)) cs\<rparr>"
proof (induction cs arbitrary: p)
  case Nil
  then show ?case by simp
next
  case (Cons i cs)
  let ?q = "p\<lparr>returned := returned p @ [(i, Inr c)]\<rparr>"
  have "cachedConnection (heap ?q) = Some c" using Cons.prems by simp
  then have "run env (map Call cs) ?q = ?q\<lparr>returned := returned ?q @ map (\<lambda>i. (i, Inr c)) cs\<rparr>"
    by (rule Cons.IH)
  moreover have "step env (Call i) p = ?q"
    using Cons.prems by (rule step_Call_cached)
  ultimately show ?case by (simp del: step.simps)
qed

lemma warm_eq:
  "warm =
     \<lparr>heap = \<lparr>mongoose = atlas, connect_calls = [(MONGODB_ATLAS_URI env_dev, vercel_options)],
              console = [Log ''MongoDB Atlas Connected: cluster0-shard-00-00.mongodb.net''],
              cachedConnection = Some atlas\<rparr>,
      pending = [], returned = [(0, Inr atlas)]\<rparr>"
  by (simp add: warm_def proc_init_def vercel_init_def connectDB_enter_def connectDB_resume_def
      driver_settles_def atlas_def)

text \<open>
  C8. Once a value is cached, a call returns that value at once: the synchronous part
  already returns it, the state (and with it the list of calls to \<open>mongoose.connect\<close>) is
  unchanged whatever the driver would have answered, and any number of further calls each
  return the same cached value without touching the module state.
\<close>

theorem connectDB_cached_idempotent:
  "cachedConnection (heap p) = Some c \<Longrightarrow>
     connectDB_enter env (heap p) = (Some c, heap p) \<and>
     connectDB env r (heap p) = (Inr c, heap p) \<and>
     run env (map Call cs) p = p\<lparr>returned := returned p @ map (\<lambda>i. (i, Inr c)) cs\<rparr>"
  by (simp add: connectDB_def connectDB_enter_def run_Calls_cached)

theorem connectDB_cached_idempotent_witness:
  "cachedConnection (heap warm) = Some atlas \<and>
   connectDB_enter env_dev (heap warm) = (Some atlas, heap warm) \<and>
   connectDB env_dev (Inl refused) (heap warm) = (Inr atlas, heap warm) \<and>
   run env_dev (map Call [1, 2, 3]) warm =
     warm\<lparr>returned := returned warm @ [(1, Inr atlas), (2, Inr atlas), (3, Inr atlas)]\<rparr>"
proof -
  have h: "cachedConnection (heap warm) = Some atlas" by (simp add: warm_eq)
  show ?thesis
    using h connectDB_cached_idempotent [OF h, of env_dev "Inl refused" "[1, 2, 3]"] by simp
qed

lemma run_Calls_uncached:
  "cachedConnection (heap p) = None \<Longrightarrow>
     run env (map Call cs) p =
       p\<lparr>heap := (heap p)\<lparr>connect_calls := connect_calls (heap p) @
                 replicate (length cs) (MONGODB_ATLAS_URI env, vercel_options)\<rparr>,
         pending := pending p @ cs\<rparr>"
proof (induction cs arbitrary: p)
  case Nil
  then show ?case by simp
next
  case (Cons i cs)
  let ?u = "(MONGODB_ATLAS_URI env, vercel_options)"
  let ?q = "p\<lparr>heap := (heap p)\<lparr>connect_calls := connect_calls (heap p) @ [?u]\<rparr>,
              pending := pending p @ [i]\<rparr>"
  have q: "step env (Call i) p = ?q"
    using Cons.prems by (simp add: connectDB_enter_def)
  have "cachedConnection (heap ?q) = None" using Cons.prems by simp
  then have "run env (map Call cs) ?q =
      ?q\<lparr>heap := (heap ?q)\<lparr>connect_calls := connect_calls (heap ?q) @
                 replicate (length cs) ?u\<rparr>,
         pending := pending ?q @ cs\<rparr>"
    by (rule Cons.IH)
  then show ?case using q by (simp del: step.simps add: replicate_append_same)
qed

lemma step_Settle_returned:
  "i \<in> set (pending q) \<Longrightarrow> returned (step env (Settle i r) q) = returned q @ [(i, r)]"
  by (cases r) (simp_all add: connectDB_resume_def)

text \<open>
  C1, as the code has it. Only the resolved value is kept in \<open>cachedConnection\<close>; the
  operation in flight is not. So when the callers \<open>cs\<close> enter while nothing is cached, each
  of them calls \<open>mongoose.connect\<close> (one more entry in \<open>connect_calls\<close> per caller) and
  all of them wait. And in any state of the process, when the attempt of a waiting caller
  \<open>i\<close> settles with \<open>r\<close>, caller \<open>i\<close> gets exactly that \<open>r\<close>: the handle or the
  failure of its own attempt.
\<close>

theorem concurrent_calls_each_attempt:
  "cachedConnection (heap p) = None \<Longrightarrow> i \<in> set (pending q) \<Longrightarrow>
     connect_calls (heap (run env (map Call cs) p)) =
       connect_calls (heap p) @ replicate (length cs) (MONGODB_ATLAS_URI env, vercel_options) \<and>
     pending (run env (map Call cs) p) = pending p @ cs \<and>
     returned (run env (map Call cs) p) = returned p \<and>
     returned (step env (Settle i r) q) = returned q @ [(i, r)]"
proof -
  assume none: "cachedConnection (heap p) = None" and i: "i \<in> set (pending q)"
  have "run env (map Call cs) p =
      p\<lparr>heap := (heap p)\<lparr>connect_calls := connect_calls (heap p) @
                 replicate (length cs) (MONGODB_ATLAS_URI env, vercel_options)\<rparr>,
         pending := pending p @ cs\<rparr>"
    using none by (rule run_Calls_uncached)
  moreover have "returned (step env (Settle i r) q) = returned q @ [(i, r)]"
    using i by (rule step_Settle_returned)
  ultimately show ?thesis by simp
qed

theorem concurrent_calls_each_attempt_witness:
  "cachedConnection (heap proc_init) = None \<and>
   (1::nat) \<in> set (pending (run env_dev [Call 0, Call 1, Settle 0 (Inr atlas)] proc_init)) \<and>
   connect_calls (heap (run env_dev (map Call [0, 1]) proc_init)) =
     [(MONGODB_ATLAS_URI env_dev, vercel_options), (MONGODB_ATLAS_URI env_dev, vercel_options)] \<and>
   pending (run env_dev (map Call [0, 1]) proc_init) = [0, 1] \<and>
   returned (step env_dev (Settle 1 (Inl refused))
               (run env_dev [Call 0, Call 1, Settle 0 (Inr atlas)] proc_init)) =
     [(0, Inr atlas), (1, Inl refused)]"
proof -
  let ?q = "run env_dev [Call 0, Call 1, Settle 0 (Inr atlas)] proc_init"
  have h: "cachedConnection (heap proc_init) = None"
    by (simp add: proc_init_def vercel_init_def)
  have q: "pending ?q = [1] \<and> returned ?q = [(0, Inr atlas)]"
    by (simp add: proc_init_def vercel_init_def connectDB_enter_def connectDB_resume_def
        driver_settles_def)
  then have m: "(1::nat) \<in> set (pending ?q)" by simp
  have "connect_calls (heap proc_init) = [] \<and> pending proc_init = [] \<and> returned proc_init = []"
    by (simp add: proc_init_def vercel_init_def)
  then show ?thesis
    using h m q concurrent_calls_each_attempt [OF h m, of env_dev "[0, 1]" "Inl refused"]
    by (simp del: step.simps run.simps)
qed

text \<open>
  Two callers enter before either attempt settles: \<open>mongoose.connect\<close> is called twice, and
  with the first attempt resolving and the second rejecting the two callers end with
  different results.
\<close>

theorem concurrent_calls_counterexample:
  "length (connect_calls (heap (run env_dev [Call 0, Call 1] proc_init))) = 2 \<and>
   returned (run env_dev [Call 0, Call 1, Settle 0 (Inr atlas), Settle 1 (Inl refused)] proc_init) =
     [(0, Inr atlas), (1, Inl refused)]"
  by (simp add: proc_init_def vercel_init_def connectDB_enter_def connectDB_resume_def
      driver_settles_def)

text \<open>
  C2, as the code has it. api/index.js registers no listener for the driver's
  \<open>disconnected\<close> event and nothing else clears \<open>cachedConnection\<close>: after the event the
  driver reports \<open>readyState\<close> 0, the cached value is still there, and the next call returns
  it without calling \<open>mongoose.connect\<close>. The listener of index.js does not call
  \<open>mongoose.connect\<close> either.
\<close>

theorem disconnected_keeps_cache:
  "cachedConnection (heap p) = Some c \<Longrightarrow>
     cachedConnection (heap (step env Disconnected p)) = Some c \<and>
     readyState (connection (mongoose (heap (step env Disconnected p)))) = 0 \<and>
     connectDB env r (heap (step env Disconnected p)) = (Inr c, heap (step env Disconnected p)) \<and>
     step env (Call i) (step env Disconnected p) =
       (step env Disconnected p)\<lparr>returned := returned p @ [(i, Inr c)]\<rparr> \<and>
     connect_calls (snd (server_step ext env DriverDisconnected t)) = connect_calls t"
  by (simp add: vercel_on_disconnected_def connectDB_def connectDB_enter_def
      server_step_connect_calls)

theorem disconnected_keeps_cache_witness:
  "cachedConnection (heap warm) = Some atlas \<and>
   cachedConnection (heap (step env_dev Disconnected warm)) = Some atlas \<and>
   readyState (connection (mongoose (heap (step env_dev Disconnected warm)))) = 0 \<and>
   fst (connectDB env_dev (Inr atlas) (heap (step env_dev Disconnected warm))) = Inr atlas \<and>
   returned (step env_dev (Call 1) (step env_dev Disconnected warm)) =
     [(0, Inr atlas), (1, Inr atlas)]"
proof -
  have h: "cachedConnection (heap warm) = Some atlas" by (simp add: warm_eq)
  have r: "returned warm = [(0, Inr atlas)]" by (simp add: warm_eq)
  show ?thesis
    using h r disconnected_keeps_cache [OF h, of env_dev "Inr atlas" 1]
    by (simp del: step.simps)
qed

text \<open>
  A first call connects, the driver then loses the connection, and a second call is made:
  it gets the first call's value back, and \<open>mongoose.connect\<close> has still been called only
  once although the driver reports \<open>readyState\<close> 0.
\<close>

theorem stale_handle_counterexample:
  "returned (run env_dev [Call 0, Settle 0 (Inr atlas), Disconnected, Call 1] proc_init) =
     [(0, Inr atlas), (1, Inr atlas)] \<and>
   length (connect_calls (heap
     (run env_dev [Call 0, Settle 0 (Inr atlas), Disconnected, Call 1] proc_init))) = 1 \<and>
   readyState (connection (mongoose (heap
     (run env_dev [Call 0, Settle 0 (Inr atlas), Disconnected, Call 1] proc_init)))) = 0"
  by (simp add: proc_init_def vercel_init_def connectDB_enter_def connectDB_resume_def
      driver_settles_def vercel_on_disconnected_def)

section \<open>Properties of the error paths\<close>

text \<open>
  C3, as the code has it. When the connection middleware's call to \<open>connectDB\<close> fails, the
  request ends there with status 500 and a body of two fields: the fixed message
  \<open>Database connection failed\<close> and, under \<open>error\<close>, the message of the error that the
  driver raised.
\<close>

theorem db_failure_response:
  "cachedConnection s = None \<Longrightarrow> upstream ext req = Next \<Longrightarrow>
     fst (vercel_db_middleware env (Inl error) s) =
       Some \<lparr>status = 500,
             body = Obj [(''message'', Str ''Database connection failed''),
                         (''error'', Str (message error))]\<rparr> \<and>
     fst (vercel_app ext env now (Inl error) req s) =
       \<lparr>status = 500,
        body = Obj [(''message'', Str ''Database connection failed''),
                    (''error'', Str (message error))]\<rparr>"
  by (simp add: vercel_app_def vercel_db_middleware_def connectDB_def connectDB_enter_def
      connectDB_resume_def driver_settles_def res_status_json_def)

theorem db_failure_response_witness:
  "cachedConnection vercel_init = None \<and> upstream plain_ext get_health = Next \<and>
   fst (vercel_app plain_ext env_prod ''2024-05-01T10:00:00.000Z'' (Inl refused) get_health
          vercel_init) =
     \<lparr>status = 500,
      body = Obj [(''message'', Str ''Database connection failed''),
                  (''error'', Str ''connect ECONNREFUSED 10.0.0.5:27017'')]\<rparr>"
proof -
  have h: "cachedConnection vercel_init = None" by (simp add: vercel_init_def)
  have u: "upstream plain_ext get_health = Next" by (simp add: plain_ext_def)
  show ?thesis
    using h u db_failure_response [OF h u, of env_prod refused "''2024-05-01T10:00:00.000Z''"]
    by (simp add: refused_def)
qed

text \<open>
  In production, with the driver refusing the connection, the body of the 500 response holds
  the driver's own error text.
\<close>

theorem db_failure_leak_counterexample:
  "status (fst (vercel_app plain_ext env_prod ''2024-05-01T10:00:00.000Z'' (Inl refused)
                  get_health vercel_init)) = 500 \<and>
   get_prop (body (fst (vercel_app plain_ext env_prod ''2024-05-01T10:00:00.000Z'' (Inl refused)
                          get_health vercel_init))) ''error'' =
     Str ''connect ECONNREFUSED 10.0.0.5:27017''"
  by (simp add: vercel_app_def vercel_db_middleware_def connectDB_def connectDB_enter_def
      connectDB_resume_def driver_settles_def res_status_json_def plain_ext_def vercel_init_def
      refused_def)

section \<open>Properties of the long-running process\<close>

lemma server_run_exited:
  "exit_code s = Some n \<Longrightarrow> server_run ext env evs s = (map (\<lambda>ev. None) evs, s)"
  by (induction evs) (simp_all add: server_step_def)

lemma server_load_eq:
  "server_load env =
     \<lparr>mongoose = idle_mongoose, connect_calls = [(MONGODB_ATLAS_URI env, server_options)],
      console = [], connect_pending = True, listening = True, exit_code = None\<rparr>"
  by (simp add: server_load_def app_listen_def server_connectDB_enter_def server_init_def)

lemma server_load_failed:
  "server_step ext env (ConnectSettled (Inl error)) (server_load env) =
     (None,
      \<lparr>mongoose = idle_mongoose, connect_calls = [(MONGODB_ATLAS_URI env, server_options)],
       console = [Error [Text ''MongoDB Atlas connection error:'', Text (message error)]],
       connect_pending = False, listening = True, exit_code = Some 1\<rparr>)"
  by (simp add: server_load_eq server_step_def server_connectDB_resume_def driver_settles_def)

text \<open>
  C5, as the code has it. Loading index.js calls \<open>connectDB\<close> once and does not await it:
  when loading ends \<open>mongoose.connect\<close> has been called once, the call is still pending and
  \<open>app.listen\<close> has already been called. No later event calls \<open>mongoose.connect\<close> again.
  A request that arrives while the attempt is pending is answered by the pipeline. If the
  attempt fails, the process exits with code 1 and answers nothing from then on.
\<close>

theorem startup_connect_not_awaited:
  "connect_calls (server_load env) = [(MONGODB_ATLAS_URI env, server_options)] \<and>
   connect_pending (server_load env) \<and> listening (server_load env) \<and>
   exit_code (server_load env) = None \<and>
   connect_calls (snd (server_run ext env evs (server_load env))) =
     [(MONGODB_ATLAS_URI env, server_options)] \<and>
   fst (server_step ext env (Request now req) (server_load env)) =
     Some (fst (server_app ext env now req (server_load env))) \<and>
   exit_code (snd (server_step ext env (ConnectSettled (Inl error)) (server_load env))) = Some 1 \<and>
   fst (server_run ext env evs
          (snd (server_step ext env (ConnectSettled (Inl error)) (server_load env)))) =
     map (\<lambda>ev. None) evs"
proof -
  have "connect_calls (snd (server_run ext env evs (server_load env))) =
      [(MONGODB_ATLAS_URI env, server_options)]"
    by (simp add: server_run_connect_calls server_load_eq)
  moreover have "fst (server_step ext env (Request now req) (server_load env)) =
      Some (fst (server_app ext env now req (server_load env)))"
    by (simp add: server_step_def server_load_eq split_beta)
  moreover have "fst (server_run ext env evs
          (snd (server_step ext env (ConnectSettled (Inl error)) (server_load env)))) =
      map (\<lambda>ev. None) evs"
    by (simp add: server_load_failed server_run_exited)
  ultimately show ?thesis
    by (simp add: server_load_failed) (simp add: server_load_eq)
qed

text \<open>
  The listener is started while the attempt is pending; a health request is then answered
  with status 200, the attempt fails afterwards and the process exits with code 1.
\<close>

theorem startup_order_counterexample:
  "listening (server_load env_dev) \<and> connect_pending (server_load env_dev) \<and>
   map (map_option status)
     (fst (server_run plain_ext env_dev
             [Request ''2024-05-01T10:00:00.000Z'' get_health, ConnectSettled (Inl refused)]
             (server_load env_dev))) = [Some 200, None] \<and>
   exit_code
     (snd (server_run plain_ext env_dev
             [Request ''2024-05-01T10:00:00.000Z'' get_health, ConnectSettled (Inl refused)]
             (server_load env_dev))) = Some 1"
  by (simp add: server_load_eq server_step_def server_app_def server_health_def plain_ext_def
      get_health_def res_json_def res_status_json_def server_connectDB_resume_def
      driver_settles_def Let_def)

section \<open>Properties of the health check and the fallback\<close>

lemma js_or_fallback:
  "truthy d \<Longrightarrow> js_or a d \<noteq> Undefined \<and> js_or a d \<noteq> Null"
  by (cases a; cases d) (simp_all add: js_or_def)

lemma to_json_eq_simps:
  "(to_json v = Undefined) = (v = Undefined)" "(to_json v = Null) = (v = Null)"
  by (cases v; simp)+

lemma vercel_health_host:
  "get_prop (get_prop (body (fst (vercel_health now s))) ''database'') ''host'' =
     to_json (js_or (host (connection (mongoose s))) (Str ''Not connected''))"
proof -
  have "js_or (host (connection (mongoose s))) (Str ''Not connected'') \<noteq> Undefined"
    using js_or_fallback [of "Str ''Not connected''"] by simp
  then show ?thesis
    by (simp add: vercel_health_def res_json_def res_status_json_def Let_def)
qed

lemma server_step_exited:
  "exit_code s = Some n \<Longrightarrow> server_step ext env ev s = (None, s)"
  by (simp add: server_step_def)

text \<open>
  C6, as the code has it. In index.js a failed startup connection ends the process, so a
  health request after it gets no answer at all. In api/index.js a health request during which
  the connection attempt fails is answered by the connection middleware with the 500
  \<open>Database connection failed\<close> response, and the health handler does not run. Where the
  serverless health handler does run, its \<open>host\<close> field is never \<open>null\<close>: a driver host
  that is unset, \<open>null\<close> or empty is reported as the string \<open>Not connected\<close>.
\<close>

theorem health_after_failed_startup:
  "cachedConnection s = None \<Longrightarrow> upstream ext req = Next \<Longrightarrow>
   \<not> truthy (host (connection (mongoose t))) \<Longrightarrow>
     fst (server_step ext env (Request now req)
            (snd (server_step ext env (ConnectSettled (Inl error)) (server_load env)))) = None \<and>
     fst (vercel_app ext env now (Inl error) req s) =
       \<lparr>status = 500,
        body = Obj [(''message'', Str ''Database connection failed''),
                    (''error'', Str (message error))]\<rparr> \<and>
     get_prop (get_prop (body (fst (vercel_health now s))) ''database'') ''host'' \<noteq> Null \<and>
     get_prop (get_prop (body (fst (vercel_health now t))) ''database'') ''host'' =
       Str ''Not connected''"
proof -
  assume c: "cachedConnection s = None" and u: "upstream ext req = Next"
    and f: "\<not> truthy (host (connection (mongoose t)))"
  have "fst (server_step ext env (Request now req)
            (snd (server_step ext env (ConnectSettled (Inl error)) (server_load env)))) = None"
    by (simp add: server_load_failed server_step_exited)
  moreover have "fst (vercel_app ext env now (Inl error) req s) =
       \<lparr>status = 500,
        body = Obj [(''message'', Str ''Database connection failed''),
                    (''error'', Str (message error))]\<rparr>"
    using c u
    by (simp add: vercel_app_def vercel_db_middleware_def connectDB_def connectDB_enter_def
        connectDB_resume_def driver_settles_def res_status_json_def)
  moreover have
    "get_prop (get_prop (body (fst (vercel_health now s))) ''database'') ''host'' \<noteq> Null"
    using js_or_fallback [of "Str ''Not connected''" "host (connection (mongoose s))"]
    by (simp add: vercel_health_host to_json_eq_simps)
  moreover have
    "get_prop (get_prop (body (fst (vercel_health now t))) ''database'') ''host'' =
       Str ''Not connected''"
    using f by (simp add: vercel_health_host js_or_def)
  ultimately show ?thesis by simp
qed

theorem health_after_failed_startup_witness:
  "cachedConnection vercel_init = None \<and> upstream plain_ext get_health = Next \<and>
   \<not> truthy (host (connection (mongoose vercel_init))) \<and>
   fst (server_step plain_ext env_dev (Request ''2024-05-01T10:00:00.000Z'' get_health)
          (snd (server_step plain_ext env_dev (ConnectSettled (Inl refused))
                  (server_load env_dev)))) = None \<and>
   status (fst (vercel_app plain_ext env_dev ''2024-05-01T10:00:00.000Z'' (Inl refused)
                  get_health vercel_init)) = 500 \<and>
   get_prop (get_prop (body (fst (vercel_health ''2024-05-01T10:00:00.000Z'' vercel_init)))
               ''database'') ''host'' = Str ''Not connected''"
proof -
  have c: "cachedConnection vercel_init = None" by (simp add: vercel_init_def)
  have u: "upstream plain_ext get_health = Next" by (simp add: plain_ext_def)
  have f: "\<not> truthy (host (connection (mongoose vercel_init)))"
    by (simp add: vercel_init_def idle_mongoose_def)
  show ?thesis
    using c u f
      health_after_failed_startup [OF c u f, of env_dev "''2024-05-01T10:00:00.000Z''" refused]
    by simp
qed

text \<open>
  After a failed startup the long-running process answers a health request with nothing; a
  serverless health request whose connection attempt fails gets status 500 and a body
  without a \<open>database\<close> field.
\<close>

theorem health_after_failure_counterexample:
  "fst (server_run plain_ext env_dev
          [ConnectSettled (Inl refused), Request ''2024-05-01T10:00:00.000Z'' get_health]
          (server_load env_dev)) = [None, None] \<and>
   status (fst (vercel_app plain_ext env_dev ''2024-05-01T10:00:00.000Z'' (Inl refused)
                  get_health vercel_init)) = 500 \<and>
   get_prop (body (fst (vercel_app plain_ext env_dev ''2024-05-01T10:00:00.000Z'' (Inl refused)
                          get_health vercel_init))) ''database'' = Undefined"
  by (simp add: server_load_eq server_step_def server_connectDB_resume_def driver_settles_def
      vercel_app_def vercel_db_middleware_def connectDB_def connectDB_enter_def
      connectDB_resume_def res_status_json_def plain_ext_def vercel_init_def refused_def)

lemma server_health_fields:
  "status (fst (server_health now s)) = 200"
  "get_prop (body (fst (server_health now s))) ''status'' = Str ''OK''"
  "get_prop (get_prop (body (fst (server_health now s))) ''database'') ''status'' =
     dbStatusText (readyState (connection (mongoose s)))"
  by (simp_all add: server_health_def res_json_def res_status_json_def Let_def)

lemma server_step_health:
  "exit_code s = None \<Longrightarrow> listening s \<Longrightarrow> upstream ext req = Next \<Longrightarrow>
   routers ext req = Next \<Longrightarrow> get_matches ext ''/api/health'' req \<Longrightarrow>
     server_step ext env (Request now req) s = (Some (fst (server_health now s)), s)"
  by (simp add: server_step_def server_app_def server_health_def Let_def)

text \<open>
  C7. The health handlers of both entry points only read \<open>mongoose.connection\<close>: each
  returns the module state exactly as it found it, so the driver's state, the cache and the
  list of calls to \<open>mongoose.connect\<close> are untouched. In index.js this holds for the whole
  pipeline: no request, whatever it is, changes the driver's state or calls
  \<open>mongoose.connect\<close>.
\<close>

theorem health_read_only:
  "snd (server_health now s) = s \<and>
   snd (vercel_health now t) = t \<and>
   connect_calls (snd (server_app ext env now req s)) = connect_calls s \<and>
   mongoose (snd (server_app ext env now req s)) = mongoose s"
  by (simp add: server_health_def vercel_health_def Let_def server_app_keeps)

text \<open>
  C10. The health handler of index.js answers with status 200 and top-level \<open>status\<close>
  \<open>OK\<close> in every state of the driver; the driver's state shows only in
  \<open>database.status\<close>, which after a lost connection reads \<open>disconnected\<close>. A health
  request that the middleware and routers before it pass on is answered by this handler as long
  as the process is listening and has not exited.
\<close>

theorem server_health_always_ok:
  "exit_code s = None \<Longrightarrow> listening s \<Longrightarrow> upstream ext req = Next \<Longrightarrow>
   routers ext req = Next \<Longrightarrow> get_matches ext ''/api/health'' req \<Longrightarrow>
     status (fst (server_health now u)) = 200 \<and>
     get_prop (body (fst (server_health now u))) ''status'' = Str ''OK'' \<and>
     get_prop (get_prop (body (fst (server_health now u))) ''database'') ''status'' =
       dbStatusText (readyState (connection (mongoose u))) \<and>
     get_prop (get_prop (body (fst (server_health now (set_readyState 0 u)))) ''database'')
       ''status'' = Str ''disconnected'' \<and>
     get_prop (body (fst (server_health now (set_readyState 0 u)))) ''status'' = Str ''OK'' \<and>
     fst (server_step ext env (Request now req) s) = Some (fst (server_health now s))"
  by (simp add: server_health_fields server_step_health set_readyState_def)

theorem server_health_always_ok_witness:
  "exit_code (snd (server_step plain_ext env_dev DriverDisconnected (server_load env_dev))) = None \<and>
   listening (snd (server_step plain_ext env_dev DriverDisconnected (server_load env_dev))) \<and>
   upstream plain_ext get_health = Next \<and> routers plain_ext get_health = Next \<and>
   get_matches plain_ext ''/api/health'' get_health \<and>
   map_option status
     (fst (server_step plain_ext env_dev (Request ''2024-05-01T10:00:00.000Z'' get_health)
             (snd (server_step plain_ext env_dev DriverDisconnected (server_load env_dev))))) =
     Some 200 \<and>
   map_option (\<lambda>res. get_prop (body res) ''status'')
     (fst (server_step plain_ext env_dev (Request ''2024-05-01T10:00:00.000Z'' get_health)
             (snd (server_step plain_ext env_dev DriverDisconnected (server_load env_dev))))) =
     Some (Str ''OK'')"
proof -
  let ?s = "snd (server_step plain_ext env_dev DriverDisconnected (server_load env_dev))"
  have e: "exit_code ?s = None"
    by (simp add: server_load_eq server_step_def set_readyState_def)
  have l: "listening ?s"
    by (simp add: server_load_eq server_step_def set_readyState_def)
  have u: "upstream plain_ext get_health = Next" by (simp add: plain_ext_def)
  have r: "routers plain_ext get_health = Next" by (simp add: plain_ext_def)
  have m: "get_matches plain_ext ''/api/health'' get_health"
    by (simp add: plain_ext_def get_health_def)
  show ?thesis
    using e l u r m
      server_health_always_ok [OF e l u r m, of "''2024-05-01T10:00:00.000Z''" ?s env_dev]
    by simp
qed

text \<open>
  C9, as the code has it. In api/index.js a request that the connection middleware lets
  through and that no router and not the health route takes ends in the fallback: status 404
  and a body with the message and the request's \<open>originalUrl\<close>. In index.js the same kind
  of request gets status 404 and a body with the message only.
\<close>

theorem not_found_bodies:
  "upstream ext req = Next \<Longrightarrow> routers ext req = Next \<Longrightarrow>
   \<not> get_matches ext ''/api/health'' req \<Longrightarrow> fst (connectDB env r s) = Inr c \<Longrightarrow>
     fst (vercel_app ext env now r req s) =
       \<lparr>status = 404,
        body = Obj [(''message'', Str ''Route not found''), (''path'', Str (originalUrl req))]\<rparr> \<and>
     fst (server_app ext env now req t) =
       \<lparr>status = 404, body = Obj [(''message'', Str ''Route not found'')]\<rparr>"
proof -
  assume up: "upstream ext req = Next" and ro: "routers ext req = Next"
    and m: "\<not> get_matches ext ''/api/health'' req" and c: "fst (connectDB env r s) = Inr c"
  obtain s' where "connectDB env r s = (Inr c, s')"
    using c by (cases "connectDB env r s") simp
  then have "fst (vercel_app ext env now r req s) =
       \<lparr>status = 404,
        body = Obj [(''message'', Str ''Route not found''), (''path'', Str (originalUrl req))]\<rparr>"
    using up ro m
    by (simp add: vercel_app_def vercel_db_middleware_def vercel_not_found_def
        res_status_json_def)
  moreover have "fst (server_app ext env now req t) =
       \<lparr>status = 404, body = Obj [(''message'', Str ''Route not found'')]\<rparr>"
    using up ro m by (simp add: server_app_def server_not_found_def res_status_json_def)
  ultimately show ?thesis by simp
qed

theorem not_found_bodies_witness:
  "upstream plain_ext get_nope = Next \<and> routers plain_ext get_nope = Next \<and>
   \<not> get_matches plain_ext ''/api/health'' get_nope \<and>
   fst (connectDB env_dev (Inr atlas) vercel_init) = Inr atlas \<and>
   fst (vercel_app plain_ext env_dev ''2024-05-01T10:00:00.000Z'' (Inr atlas) get_nope
          vercel_init) =
     \<lparr>status = 404,
      body = Obj [(''message'', Str ''Route not found''), (''path'', Str ''/api/nope?x=1'')]\<rparr> \<and>
   fst (server_app plain_ext env_dev ''2024-05-01T10:00:00.000Z'' get_nope
          (server_load env_dev)) =
     \<lparr>status = 404, body = Obj [(''message'', Str ''Route not found'')]\<rparr>"
proof -
  have u: "upstream plain_ext get_nope = Next" by (simp add: plain_ext_def)
  have r: "routers plain_ext get_nope = Next" by (simp add: plain_ext_def)
  have m: "\<not> get_matches plain_ext ''/api/health'' get_nope"
    by (simp add: plain_ext_def get_nope_def)
  have c: "fst (connectDB env_dev (Inr atlas) vercel_init) = Inr atlas"
    by (simp add: connectDB_def connectDB_enter_def connectDB_resume_def vercel_init_def)
  show ?thesis
    using u r m c
      not_found_bodies [OF u r m c, of "''2024-05-01T10:00:00.000Z''" "server_load env_dev"]
    by (simp add: get_nope_def)
qed

text \<open>
  In index.js the 404 body for an unmatched path has no \<open>path\<close> field and does not
  contain the request path anywhere: it is the message alone.
\<close>

theorem not_found_path_counterexample:
  "status (fst (server_app plain_ext env_dev ''2024-05-01T10:00:00.000Z'' get_nope
                  (server_load env_dev))) = 404 \<and>
   body (fst (server_app plain_ext env_dev ''2024-05-01T10:00:00.000Z'' get_nope
                (server_load env_dev))) = Obj [(''message'', Str ''Route not found'')] \<and>
   get_prop (body (fst (server_app plain_ext env_dev ''2024-05-01T10:00:00.000Z'' get_nope
                          (server_load env_dev)))) ''path'' = Undefined"
  by (simp add: server_app_def server_not_found_def res_status_json_def plain_ext_def
      get_nope_def)

end
